theory Spec2Isabelle
  imports Complex_Main
begin

section \<open>Values\<close>

text \<open>
  The scripts compute on pandas columns of Python floats. A column cell is modelled as
  \<open>real option\<close>: \<open>None\<close> is NaN (a missing value), \<open>Some x\<close> a number.
  Arithmetic is exact real arithmetic; rounding and overflow of IEEE doubles are outside
  the model.
\<close>

type_synonym cell = "real option"

section \<open>ReversalDetector: \<open>find_sma_reversals\<close> (zz_Legacy/MarketMonitorLivev6.py)\<close>

text \<open>
  The frame handed to the detector, restricted to the index and the two columns the
  function reads (\<open>raw_col\<close> and \<open>sma_col\<close>).
\<close>

record 'd row =
  date :: 'd
  raw :: cell
  sma :: cell

text \<open>
  \<open>df.loc[label, raw_col]\<close>: a scalar when exactly one row carries the label, a Series
  of all matching cells when several do, KeyError when none does.
\<close>

datatype loc_result = Loc_KeyError | Scalar cell | Series "cell list"

definition loc :: "'d row list \<Rightarrow> 'd \<Rightarrow> loc_result" where
  "loc df d =
     (case filter (\<lambda>r. date r = d) df of
        [] \<Rightarrow> Loc_KeyError
      | [r] \<Rightarrow> Scalar (raw r)
      | rs \<Rightarrow> Series (map raw rs))"

text \<open>\<open>valid_data = df[[raw_col, sma_col]].dropna()\<close>: rows with both cells present.\<close>

fun dropna :: "'d row list \<Rightarrow> ('d \<times> real \<times> real) list" where
  "dropna [] = []"
| "dropna (r # rs) =
     (case raw r of
        None \<Rightarrow> dropna rs
      | Some x \<Rightarrow> (case sma r of None \<Rightarrow> dropna rs | Some y \<Rightarrow> (date r, x, y) # dropna rs))"

text \<open>An entry of \<open>reversals\<close>: the tuple \<open>(last_date, df.loc[last_date, raw_col], kind)\<close>.\<close>

type_synonym 'd event = "'d \<times> loc_result \<times> string"

definition ev_date :: "'d event \<Rightarrow> 'd" where
  "ev_date e = fst e"

definition ev_price :: "'d event \<Rightarrow> loc_result" where
  "ev_price e = fst (snd e)"

definition ev_kind :: "'d event \<Rightarrow> string" where
  "ev_kind e = snd (snd e)"

text \<open>The local variables of the loop.\<close>

record 'd state =
  last_sma_val :: real
  last_date :: 'd
  trend :: int
  reversals :: "'d event list"

text \<open>One iteration of \<open>for date, row in valid_data.iterrows()\<close>.\<close>

definition step :: "'d row list \<Rightarrow> real \<Rightarrow> 'd state \<Rightarrow> 'd \<times> real \<times> real \<Rightarrow> 'd state" where
  "step df threshold s r =
     (let d = fst r; curr_sma = snd (snd r) in
      if trend s = 0 then
        (if curr_sma \<ge> last_sma_val s * (1 + threshold) then
           s\<lparr>trend := 1, last_sma_val := curr_sma, last_date := d\<rparr>
         else if curr_sma \<le> last_sma_val s * (1 - threshold) then
           s\<lparr>trend := - 1, last_sma_val := curr_sma, last_date := d\<rparr>
         else s)
      else if trend s = 1 then
        (if curr_sma > last_sma_val s then
           s\<lparr>last_sma_val := curr_sma, last_date := d\<rparr>
         else if curr_sma < last_sma_val s * (1 - threshold) then
           s\<lparr>reversals := reversals s @ [(last_date s, loc df (last_date s), ''peak'')],
             trend := - 1, last_sma_val := curr_sma, last_date := d\<rparr>
         else s)
      else if trend s = - 1 then
        (if curr_sma < last_sma_val s then
           s\<lparr>last_sma_val := curr_sma, last_date := d\<rparr>
         else if curr_sma > last_sma_val s * (1 + threshold) then
           s\<lparr>reversals := reversals s @ [(last_date s, loc df (last_date s), ''trough'')],
             trend := 1, last_sma_val := curr_sma, last_date := d\<rparr>
         else s)
      else s)"

text \<open>The state before the loop: anchored at the first valid row, no direction yet.\<close>

definition init_state :: "'d \<times> real \<times> real \<Rightarrow> 'd state" where
  "init_state r0 =
     \<lparr>last_sma_val = snd (snd r0), last_date = fst r0, trend = 0, reversals = []\<rparr>"

definition run :: "'d row list \<Rightarrow> real \<Rightarrow> 'd state \<Rightarrow> ('d \<times> real \<times> real) list \<Rightarrow> 'd state" where
  "run df threshold s rs = foldl (step df threshold) s rs"

definition find_sma_reversals :: "'d row list \<Rightarrow> real \<Rightarrow> 'd event list" where
  "find_sma_reversals df threshold =
     (case dropna df of
        [] \<Rightarrow> []
      | r0 # rs \<Rightarrow> reversals (run df threshold (init_state r0) (r0 # rs)))"

text \<open>No two neighbours of an event list carry the same kind.\<close>

fun alternating :: "'d event list \<Rightarrow> bool" where
  "alternating (a # b # es) = (ev_kind a \<noteq> ev_kind b \<and> alternating (b # es))"
| "alternating es = True"

text \<open>
  The V-shaped test series of 100 bars: \<open>linspace(100, 50, 50)\<close> followed by
  \<open>linspace(50, 100, 50)\<close> as the smoothed column, dated by bar number, with an
  arbitrary raw close \<open>c i\<close> at bar \<open>i\<close>.
\<close>

definition v_sma :: "nat \<Rightarrow> real" where
  "v_sma i = (if i < 50 then 100 - real i * 50 / 49 else 50 + (real i - 50) * 50 / 49)"

definition v_frame :: "(nat \<Rightarrow> real) \<Rightarrow> nat row list" where
  "v_frame c = map (\<lambda>i. \<lparr>date = i, raw = Some (c i), sma = Some (v_sma i)\<rparr>) [0..<100]"

text \<open>
  A three-bar frame whose smoothed column rises by 2 percent and falls back, with raw
  closes that differ from the smoothed values.
\<close>

definition peak_frame :: "nat row list" where
  "peak_frame =
     [\<lparr>date = 0, raw = Some 10, sma = Some 100\<rparr>,
      \<lparr>date = 1, raw = Some 20, sma = Some 102\<rparr>,
      \<lparr>date = 2, raw = Some 30, sma = Some 100\<rparr>]"

text \<open>
  Loop invariants. \<open>kind_inv\<close>: the events so far alternate and the direction of the
  current leg is the one the last event opened. \<open>anchored\<close>: the stored extreme is the
  date and smoothed value of a row of \<open>valid_data\<close>.
\<close>

definition kind_inv :: "'d state \<Rightarrow> bool" where
  "kind_inv s =
     (alternating (reversals s) \<and>
      (reversals s = [] \<or>
       (ev_kind (last (reversals s)) = ''peak'' \<and> trend s = - 1) \<or>
       (ev_kind (last (reversals s)) = ''trough'' \<and> trend s = 1)))"

definition anchored :: "'d row list \<Rightarrow> 'd state \<Rightarrow> bool" where
  "anchored df s = (\<exists>x. (last_date s, x, last_sma_val s) \<in> set (dropna df))"

section \<open>Cache and fetch (python/SectorIndexv12.py)\<close>

text \<open>
  A \<open>datetime\<close> is a number of seconds on the naive time line that both
  \<open>datetime.now()\<close> and \<open>pd.to_datetime(ts, unit='s')\<close> live on; \<open>.date()\<close> is the
  day number.
\<close>

type_synonym datetime = int

definition date_of :: "datetime \<Rightarrow> int" where
  "date_of t = t div 86400"

text \<open>A row of the price frame: the index label and the five columns.\<close>

record bar =
  stamp :: datetime
  Open :: cell
  High :: cell
  Low :: cell
  Close :: cell
  Volume :: cell

type_synonym frame = "bar list"

definition CACHE_HOURS :: real where
  "CACHE_HOURS = 24 * 7"

definition MIN_BARS_REQUIRED :: nat where
  "MIN_BARS_REQUIRED = 200"

definition EXPECTED_MIN_BARS_5Y :: nat where
  "EXPECTED_MIN_BARS_5Y = 1100"

text \<open>
  What a cache file holds: bytes that do not unpickle to a pair (\<open>Corrupt\<close>), or the
  pickled pair \<open>(df, fetch_time)\<close>, where \<open>df\<close> may be \<open>None\<close>. The outside world
  of the script: the cache directory (one file per ticker), the clock, and a record of
  the HTTP requests issued and the sleeps taken.
\<close>

datatype pickle_file = Corrupt | Entry "frame option" datetime

record world =
  files :: "string \<rightharpoonup> pickle_file"
  now :: datetime
  requests :: nat
  slept :: "nat list"

definition index_min :: "frame \<Rightarrow> datetime" where
  "index_min df = Min (set (map stamp df))"

definition index_max :: "frame \<Rightarrow> datetime" where
  "index_max df = Max (set (map stamp df))"

text \<open>
  \<open>load_cached_data\<close>: \<open>None\<close> is the miss. Every exception inside the \<open>try\<close> (here:
  a file that does not unpickle to a pair) ends in \<open>return None\<close>.
\<close>

definition load_cached_data :: "world \<Rightarrow> string \<Rightarrow> frame option" where
  "load_cached_data w ticker =
     (case files w ticker of
        None \<Rightarrow> None
      | Some Corrupt \<Rightarrow> None
      | Some (Entry dfo fetch_time) \<Rightarrow>
          (let age_hours = real_of_int (now w - fetch_time) / 3600 in
           if age_hours > CACHE_HOURS then None
           else
             (case dfo of
                None \<Rightarrow> None
              | Some df \<Rightarrow>
                  if df = [] \<or> length df < MIN_BARS_REQUIRED then None
                  else
                    (let first_date = index_min df;
                         years = real_of_int (date_of (now w) - date_of first_date) / 365.25 in
                     if years < 4.7 \<or> length df < EXPECTED_MIN_BARS_5Y then None
                     else
                       (let last_date = index_max df in
                        if date_of (now w) - date_of last_date > 7 then None
                        else Some df)))))"

definition save_cached_data :: "string \<Rightarrow> frame \<Rightarrow> world \<Rightarrow> world" where
  "save_cached_data ticker df w =
     (if df = [] then w
      else w\<lparr>files := (files w)(ticker \<mapsto> Entry (Some df) (now w))\<rparr>)"

text \<open>
  The answer of the network to one request. \<open>Raises e\<close>: \<open>requests.get\<close>,
  \<open>raise_for_status\<close>, \<open>r.json()\<close> or \<open>data['chart']['result'][0]\<close> raised \<open>e\<close>.
  \<open>Chart res\<close>: the first chart result of the decoded JSON. A key that the code reads
  with \<open>[...]\<close> or \<open>.get\<close> may be absent (\<open>None\<close>); a JSON \<open>null\<close> inside an array is
  a NaN cell.
\<close>

datatype exn =
  ConnectionError | HTTPError | JSONDecodeError | KeyError | IndexError | TypeError | ValueError

record quote_arrays =
  q_open :: "cell list option"
  q_high :: "cell list option"
  q_low :: "cell list option"
  q_close :: "cell list option"
  q_volume :: "cell list option"

record chart_result =
  timestamp :: "datetime list option"
  quote :: "quote_arrays option"
  adjclose :: "cell list option"

datatype response = Raises exn | Chart chart_result

text \<open>\<open>Series.ffill()\<close>: a NaN takes the last value seen before it, if any.\<close>

fun ffill_from :: "'a option \<Rightarrow> 'a option list \<Rightarrow> 'a option list" where
  "ffill_from prev [] = []"
| "ffill_from prev (None # xs) = prev # ffill_from prev xs"
| "ffill_from prev (Some v # xs) = Some v # ffill_from (Some v) xs"

definition ffill :: "'a option list \<Rightarrow> 'a option list" where
  "ffill xs = ffill_from None xs"

text \<open>
  A column handed to the \<open>pd.DataFrame\<close> constructor next to an index of length \<open>n\<close>:
  the scalar \<open>None\<close> is broadcast, a list must have length \<open>n\<close> (ValueError otherwise).
\<close>

definition column :: "nat \<Rightarrow> cell list option \<Rightarrow> exn + cell list" where
  "column n c =
     (case c of
        None \<Rightarrow> Inr (replicate n None)
      | Some xs \<Rightarrow> if length xs = n then Inr xs else Inl ValueError)"

definition all_nan :: "bar \<Rightarrow> bool" where
  "all_nan b = (Open b = None \<and> High b = None \<and> Low b = None \<and> Close b = None \<and> Volume b = None)"

definition build_frame ::
  "datetime list \<Rightarrow> cell list \<Rightarrow> cell list \<Rightarrow> cell list \<Rightarrow> cell list \<Rightarrow> cell list \<Rightarrow> frame" where
  "build_frame ts os hs ls cs vs =
     filter (\<lambda>b. \<not> all_nan b)
       (map (\<lambda>i. \<lparr>stamp = ts ! i, Open = ffill os ! i, High = ffill hs ! i, Low = ffill ls ! i,
                  Close = ffill cs ! i, Volume = ffill vs ! i\<rparr>) [0..<length ts])"

text \<open>
  The body of the \<open>try\<close> from the response to the frame: \<open>Inl\<close> is an exception, which
  the \<open>except Exception\<close> clause catches.
\<close>

definition try_fetch :: "response \<Rightarrow> exn + frame" where
  "try_fetch r =
     (case r of
        Raises e \<Rightarrow> Inl e
      | Chart res \<Rightarrow>
          (case timestamp res of
             None \<Rightarrow> Inl KeyError
           | Some ts \<Rightarrow>
               (case quote res of
                  None \<Rightarrow> Inl KeyError
                | Some q \<Rightarrow>
                    (let adj = (case adjclose res of
                                  Some a \<Rightarrow> a
                                | None \<Rightarrow> (case q_close q of Some c \<Rightarrow> c | None \<Rightarrow> []));
                         close = (if length adj = length ts then Some adj else q_close q);
                         n = length ts in
                     (case column n (q_open q) of Inl e \<Rightarrow> Inl e | Inr os \<Rightarrow>
                     (case column n (q_high q) of Inl e \<Rightarrow> Inl e | Inr hs \<Rightarrow>
                     (case column n (q_low q) of Inl e \<Rightarrow> Inl e | Inr ls \<Rightarrow>
                     (case column n close of Inl e \<Rightarrow> Inl e | Inr cs \<Rightarrow>
                     (case column n (q_volume q) of Inl e \<Rightarrow> Inl e | Inr vs \<Rightarrow>
                        Inr (build_frame ts os hs ls cs vs))))))))))"

definition sleep :: "nat \<Rightarrow> world \<Rightarrow> world" where
  "sleep secs w = w\<lparr>now := now w + int secs, slept := slept w @ [secs]\<rparr>"

definition send_request :: "world \<Rightarrow> world" where
  "send_request w = w\<lparr>requests := requests w + 1\<rparr>"

text \<open>
  The loop \<open>for attempt in range(1, 6)\<close>; \<open>net attempt\<close> is the network's answer to the
  request of that attempt. Falling out of the loop returns \<open>pd.DataFrame()\<close>, the empty
  frame.
\<close>

fun fetch_loop :: "(nat \<Rightarrow> response) \<Rightarrow> string \<Rightarrow> nat list \<Rightarrow> world \<Rightarrow> frame \<times> world" where
  "fetch_loop net ticker [] w = ([], w)"
| "fetch_loop net ticker (attempt # rest) w =
     (case try_fetch (net attempt) of
        Inr df \<Rightarrow> (df, save_cached_data ticker df (send_request w))
      | Inl e \<Rightarrow> fetch_loop net ticker rest (sleep (4 + attempt * 3) (send_request w)))"

definition get_stock_data ::
  "(nat \<Rightarrow> response) \<Rightarrow> string \<Rightarrow> bool \<Rightarrow> world \<Rightarrow> frame \<times> world" where
  "get_stock_data net ticker force_refresh w =
     (case (if force_refresh then None else load_cached_data w ticker) of
        Some df \<Rightarrow> (df, w)
      | None \<Rightarrow> fetch_loop net ticker [1..<6] w)"

text \<open>
  The world after a failed attempt: the request was sent and the \<open>except\<close> clause
  slept \<open>4 + attempt * 3\<close> seconds.
\<close>

definition fail_step :: "world \<Rightarrow> nat \<Rightarrow> world" where
  "fail_step w attempt = sleep (4 + attempt * 3) (send_request w)"

text \<open>Concrete inputs: a fresh world, daily bars, and two 1100-bar series.\<close>

definition world0 :: "datetime \<Rightarrow> world" where
  "world0 t = \<lparr>files = Map.empty, now = t, requests = 0, slept = []\<rparr>"

definition day :: "int \<Rightarrow> datetime" where
  "day n = n * 86400"

definition plain_bar :: "datetime \<Rightarrow> bar" where
  "plain_bar t =
     \<lparr>stamp = t, Open = Some 1, High = Some 1, Low = Some 1, Close = Some 1, Volume = Some 1\<rparr>"

text \<open>1100 bars on the days 0 to 1099, and 1100 bars on the even days 0 to 2198.\<close>

definition stale_series :: frame where
  "stale_series = map (\<lambda>i. plain_bar (day (int i))) [0..<1100]"


text \<open>
  A response that decodes and carries every key, with an empty timestamp array and
  empty columns; and a network that answers every request with it.
\<close>

definition empty_chart :: chart_result where
  "empty_chart =
     \<lparr>timestamp = Some [],
      quote = Some \<lparr>q_open = Some [], q_high = Some [], q_low = Some [], q_close = Some [],
                    q_volume = Some []\<rparr>,
      adjclose = Some []\<rparr>"

definition empty_net :: "nat \<Rightarrow> response" where
  "empty_net attempt = Chart empty_chart"

text \<open>
  A response without the key \<open>timestamp\<close>, and a network that fails five times in
  different ways: no connection, an HTTP error status, a body that is not JSON, and
  then responses without timestamps.
\<close>

definition no_timestamp :: chart_result where
  "no_timestamp =
     \<lparr>timestamp = None,
      quote = Some \<lparr>q_open = None, q_high = None, q_low = None, q_close = None, q_volume = None\<rparr>,
      adjclose = None\<rparr>"

definition dead_net :: "nat \<Rightarrow> response" where
  "dead_net attempt =
     (if attempt = 1 then Raises ConnectionError
      else if attempt = 2 then Raises HTTPError
      else if attempt = 3 then Raises JSONDecodeError
      else Chart no_timestamp)"

section \<open>Indicators and trend state (python/SectorIndexv12.py)\<close>

text \<open>
  A derived column can hold an infinity: numpy divides a non-zero number by zero to
  plus or minus infinity, and zero by zero to NaN. A derived cell is NaN (\<open>None\<close>) or
  a finite number or an infinity. The prices themselves (\<open>cell\<close>) are finite or NaN:
  they are decoded from JSON. A zero is taken as positive zero: the sign of a zero
  divisor is outside the model.
\<close>

datatype xval = Fin real | PInf | NInf

type_synonym xcell = "xval option"

text \<open>A finite cell as a derived cell.\<close>

definition fin :: "cell \<Rightarrow> xcell" where
  "fin c = map_option Fin c"

text \<open>IEEE arithmetic on the non-NaN values, over exact reals; \<open>None\<close> is a NaN result.\<close>

fun xv_neg :: "xval \<Rightarrow> xval" where
  "xv_neg (Fin a) = Fin (- a)"
| "xv_neg PInf = NInf"
| "xv_neg NInf = PInf"

fun xv_add :: "xval \<Rightarrow> xval \<Rightarrow> xcell" where
  "xv_add (Fin a) (Fin b) = Some (Fin (a + b))"
| "xv_add (Fin a) PInf = Some PInf"
| "xv_add (Fin a) NInf = Some NInf"
| "xv_add PInf (Fin b) = Some PInf"
| "xv_add PInf PInf = Some PInf"
| "xv_add PInf NInf = None"
| "xv_add NInf (Fin b) = Some NInf"
| "xv_add NInf NInf = Some NInf"
| "xv_add NInf PInf = None"

fun xv_div :: "xval \<Rightarrow> xval \<Rightarrow> xcell" where
  "xv_div (Fin a) (Fin b) =
     (if b \<noteq> 0 then Some (Fin (a / b))
      else if a > 0 then Some PInf
      else if a < 0 then Some NInf
      else None)"
| "xv_div (Fin a) PInf = Some (Fin 0)"
| "xv_div (Fin a) NInf = Some (Fin 0)"
| "xv_div PInf (Fin b) = (if b \<ge> 0 then Some PInf else Some NInf)"
| "xv_div NInf (Fin b) = (if b \<ge> 0 then Some NInf else Some PInf)"
| "xv_div PInf PInf = None"
| "xv_div PInf NInf = None"
| "xv_div NInf PInf = None"
| "xv_div NInf NInf = None"

fun xv_times :: "real \<Rightarrow> xval \<Rightarrow> xcell" where
  "xv_times k (Fin a) = Some (Fin (a * k))"
| "xv_times k PInf = (if k > 0 then Some PInf else if k < 0 then Some NInf else None)"
| "xv_times k NInf = (if k > 0 then Some NInf else if k < 0 then Some PInf else None)"

fun xv_less :: "xval \<Rightarrow> xval \<Rightarrow> bool" where
  "xv_less (Fin a) (Fin b) = (a < b)"
| "xv_less (Fin a) PInf = True"
| "xv_less (Fin a) NInf = False"
| "xv_less PInf (Fin b) = False"
| "xv_less PInf PInf = False"
| "xv_less PInf NInf = False"
| "xv_less NInf (Fin b) = True"
| "xv_less NInf PInf = True"
| "xv_less NInf NInf = False"

text \<open>Arithmetic and comparison of derived cells: NaN propagates and compares false.\<close>

definition x_add :: "xcell \<Rightarrow> xcell \<Rightarrow> xcell" where
  "x_add a b = (case a of None \<Rightarrow> None | Some u \<Rightarrow> (case b of None \<Rightarrow> None | Some v \<Rightarrow> xv_add u v))"

definition x_sub :: "xcell \<Rightarrow> xcell \<Rightarrow> xcell" where
  "x_sub a b = x_add a (map_option xv_neg b)"

definition x_div :: "xcell \<Rightarrow> xcell \<Rightarrow> xcell" where
  "x_div a b = (case a of None \<Rightarrow> None | Some u \<Rightarrow> (case b of None \<Rightarrow> None | Some v \<Rightarrow> xv_div u v))"

definition x_scale :: "real \<Rightarrow> xcell \<Rightarrow> xcell" where
  "x_scale k a = (case a of None \<Rightarrow> None | Some u \<Rightarrow> xv_times k u)"

definition x_gt :: "xcell \<Rightarrow> xcell \<Rightarrow> bool" where
  "x_gt a b = (case a of None \<Rightarrow> False | Some u \<Rightarrow> (case b of None \<Rightarrow> False | Some v \<Rightarrow> xv_less v u))"

definition x_lt :: "xcell \<Rightarrow> xcell \<Rightarrow> bool" where
  "x_lt a b = (case a of None \<Rightarrow> False | Some u \<Rightarrow> (case b of None \<Rightarrow> False | Some v \<Rightarrow> xv_less u v))"

text \<open>Subtraction and comparison of finite cells.\<close>

definition cell_sub :: "cell \<Rightarrow> cell \<Rightarrow> cell" where
  "cell_sub a b =
     (case a of None \<Rightarrow> None | Some x \<Rightarrow> (case b of None \<Rightarrow> None | Some y \<Rightarrow> Some (x - y)))"

definition cell_gt :: "cell \<Rightarrow> cell \<Rightarrow> bool" where
  "cell_gt a b =
     (case a of None \<Rightarrow> False | Some x \<Rightarrow> (case b of None \<Rightarrow> False | Some y \<Rightarrow> x > y))"

definition cell_lt :: "cell \<Rightarrow> cell \<Rightarrow> bool" where
  "cell_lt a b =
     (case a of None \<Rightarrow> False | Some x \<Rightarrow> (case b of None \<Rightarrow> False | Some y \<Rightarrow> x < y))"

definition fillna :: "'a \<Rightarrow> 'a option list \<Rightarrow> 'a option list" where
  "fillna v xs = map (\<lambda>c. case c of None \<Rightarrow> Some v | Some x \<Rightarrow> Some x) xs"

text \<open>
  \<open>Series.rolling(window, min_periods).mean()\<close>: at row \<open>i\<close> the mean of the numbers
  among the last \<open>window\<close> cells up to \<open>i\<close>, NaN when there are fewer than
  \<open>min_periods\<close> of them. \<open>rolling(14)\<close> is \<open>rolling_mean 14 14\<close>.
\<close>

definition rolling_mean :: "nat \<Rightarrow> nat \<Rightarrow> cell list \<Rightarrow> cell list" where
  "rolling_mean window min_periods xs =
     map (\<lambda>i. let obs = List.map_filter (\<lambda>c. c) (drop (i + 1 - window) (take (i + 1) xs)) in
               if length obs \<ge> min_periods then Some (sum_list obs / real (length obs)) else None)
       [0..<length xs]"

definition diff :: "cell list \<Rightarrow> cell list" where
  "diff xs = map (\<lambda>i. if i = 0 then None else cell_sub (xs ! i) (xs ! (i - 1))) [0..<length xs]"

text \<open>
  \<open>Series.pct_change(periods)\<close> with the default of pandas 1 and 2, which pads NaN
  cells forward before dividing.
\<close>

definition pct_change :: "nat \<Rightarrow> xcell list \<Rightarrow> xcell list" where
  "pct_change periods xs =
     (let ys = ffill xs in
      map (\<lambda>i. if i < periods then None
                else x_sub (x_div (ys ! i) (ys ! (i - periods))) (Some (Fin 1))) [0..<length xs])"

definition clip_lower :: "real \<Rightarrow> cell list \<Rightarrow> cell list" where
  "clip_lower lo xs = map (map_option (max lo)) xs"

definition clip_upper :: "real \<Rightarrow> cell list \<Rightarrow> cell list" where
  "clip_upper hi xs = map (map_option (min hi)) xs"

definition neg :: "cell list \<Rightarrow> cell list" where
  "neg xs = map (map_option uminus) xs"

definition replace_zero_nan :: "cell list \<Rightarrow> cell list" where
  "replace_zero_nan xs = map (\<lambda>c. if c = Some 0 then None else c) xs"

text \<open>The lines 161 to 166: \<open>gain\<close>, \<open>loss\<close>, \<open>rs\<close> and the filled \<open>df['RSI']\<close>.\<close>

definition gain_col :: "cell list \<Rightarrow> cell list" where
  "gain_col closes = rolling_mean 14 14 (clip_lower 0 (diff closes))"

definition loss_col :: "cell list \<Rightarrow> cell list" where
  "loss_col closes = rolling_mean 14 14 (neg (clip_upper 0 (diff closes)))"

definition rs_col :: "cell list \<Rightarrow> xcell list" where
  "rs_col closes =
     map2 x_div (map fin (gain_col closes)) (map fin (replace_zero_nan (loss_col closes)))"

definition RSI_col :: "cell list \<Rightarrow> xcell list" where
  "RSI_col closes =
     fillna (Fin 50)
       (map (\<lambda>rs. x_sub (Some (Fin 100)) (x_div (Some (Fin 100)) (x_add (Some (Fin 1)) rs)))
          (rs_col closes))"

text \<open>
  \<open>spy_df['Close'].reindex(df.index)\<close>: the benchmark column itself when the two
  indexes are identical; otherwise ValueError when the benchmark index has duplicate
  labels, and else the benchmark close at each label of the frame, NaN where the
  benchmark has no such label.
\<close>

definition reindex :: "frame \<Rightarrow> datetime list \<Rightarrow> exn + cell list" where
  "reindex spy idx =
     (if map stamp spy = idx then Inr (map Close spy)
      else if \<not> distinct (map stamp spy) then Inl ValueError
      else Inr (map (\<lambda>t. case map_of (map (\<lambda>b. (stamp b, Close b)) spy) t of
                            None \<Rightarrow> None
                          | Some c \<Rightarrow> c) idx))"

text \<open>
  The guard of the benchmark branch: \<open>Some aligned\<close> when \<open>spy_df\<close> is given and not
  empty, the \<open>try\<close> raises nothing and \<open>aligned.notna().any()\<close> holds; \<open>None\<close> when
  control reaches the two assignments of zero after the \<open>try\<close>.
\<close>

definition aligned_benchmark :: "frame option \<Rightarrow> datetime list \<Rightarrow> cell list option" where
  "aligned_benchmark spy_df idx =
     (case spy_df of
        None \<Rightarrow> None
      | Some spy \<Rightarrow>
          if spy = [] then None
          else
            (case reindex spy idx of
               Inl e \<Rightarrow> None
             | Inr a \<Rightarrow>
                 (let aligned = ffill a in
                  if list_ex (\<lambda>c. c \<noteq> None) aligned then Some aligned else None)))"

text \<open>
  A row of the frame that \<open>calculate_indicators\<close> returns. The column \<open>Rel_Line\<close>
  exists only when the benchmark branch ran (\<open>None\<close>: no such column).
\<close>

record ind_bar = bar +
  SMA_20 :: cell
  SMA_50 :: cell
  SMA_200 :: cell
  Return :: xcell
  RSI :: xcell
  Rel_Line :: "xcell option"
  Alpha :: xcell
  Rel_Perf_3M :: xcell

definition calculate_indicators :: "frame \<Rightarrow> frame option \<Rightarrow> ind_bar list" where
  "calculate_indicators df spy_df =
     (let closes = map Close df;
          n = length df;
          sma20 = rolling_mean 20 1 closes;
          sma50 = rolling_mean 50 1 closes;
          sma200 = rolling_mean 200 1 closes;
          ret = map (x_scale 100) (pct_change 1 (map fin closes));
          rsi = RSI_col closes;
          bench = aligned_benchmark spy_df (map stamp df);
          rel_line = map_option (\<lambda>aligned. map2 x_div (map fin closes) (map fin aligned)) bench;
          alpha = (case bench of
                     None \<Rightarrow> replicate n (Some (Fin 0))
                   | Some aligned \<Rightarrow>
                       fillna (Fin 0)
                         (map2 x_sub ret (map (x_scale 100) (pct_change 1 (map fin aligned)))));
          rel_perf = (case rel_line of
                        None \<Rightarrow> replicate n (Some (Fin 0))
                      | Some rl \<Rightarrow> map (x_scale 100) (pct_change 63 rl))
      in map (\<lambda>i. \<lparr>stamp = stamp (df ! i), Open = Open (df ! i), High = High (df ! i),
                     Low = Low (df ! i), Close = Close (df ! i), Volume = Volume (df ! i),
                     SMA_20 = sma20 ! i, SMA_50 = sma50 ! i, SMA_200 = sma200 ! i,
                     Return = ret ! i, RSI = rsi ! i,
                     Rel_Line = map_option (\<lambda>rl. rl ! i) rel_line,
                     Alpha = alpha ! i, Rel_Perf_3M = rel_perf ! i\<rparr>) [0..<n])"

text \<open>
  \<open>determine_trend_state\<close> with \<open>SMA_KEY = 'SMA_50'\<close> (\<open>PLOT_SMA_PERIOD = 50\<close>). The
  rows carry the column \<open>Rel_Perf_3M\<close>, so the default of \<open>cur.get\<close> is never taken.
\<close>

definition determine_trend_state :: "ind_bar list \<Rightarrow> string \<times> string" where
  "determine_trend_state df =
     (if df = [] then (''Neutral'', ''#8a94a6'')
      else
        (let cur = last df; price = Close cur; sma = SMA_50 cur; rel = Rel_Perf_3M cur in
         if cell_gt price sma \<and> x_gt rel (Some (Fin 0)) then (''LEADING'', ''#26a69a'')
         else if cell_gt price sma \<and> x_lt rel (Some (Fin 0)) then (''WEAKENING'', ''#F7DC6F'')
         else if cell_lt price sma \<and> x_gt rel (Some (Fin 0)) then (''IMPROVING'', ''#45B7D1'')
         else if cell_lt price sma \<and> x_lt rel (Some (Fin 0)) then (''LAGGING'', ''#ef5350'')
         else (''Neutral'', ''#8a94a6'')))"

text \<open>
  Concrete inputs: sixteen closes that zigzag upwards, sixteen closes that only rise
  (so that the average loss is zero), and small frames.
\<close>

definition zigzag :: "cell list" where
  "zigzag = map Some [10, 11, 10, 12, 11, 13, 12, 14, 13, 15, 14, 16, 15, 17, 16, 18]"

definition zigzag_frame :: frame where
  "zigzag_frame = map (\<lambda>i. (plain_bar (day (int i)))\<lparr>Close := zigzag ! i\<rparr>) [0..<16]"

definition rising :: "cell list" where
  "rising = map Some [1, 2, 3, 4, 5, 6, 7, 8, 9, 10, 11, 12, 13, 14, 15, 16]"

definition rising_frame :: frame where
  "rising_frame = map (\<lambda>i. (plain_bar (day (int i)))\<lparr>Close := rising ! i\<rparr>) [0..<16]"

definition two_bars :: frame where
  "two_bars = [plain_bar 0, (plain_bar 86400)\<lparr>Close := Some 3\<rparr>]"

definition tied_row :: ind_bar where
  "tied_row =
     \<lparr>stamp = 0, Open = Some 5, High = Some 5, Low = Some 5, Close = Some 5, Volume = Some 1,
      SMA_20 = Some 5, SMA_50 = Some 5, SMA_200 = Some 5, Return = Some (Fin 0),
      RSI = Some (Fin 50), Rel_Line = Some (Some (Fin 1)), Alpha = Some (Fin 1),
      Rel_Perf_3M = Some (Fin 3)\<rparr>"

section \<open>Properties of the reversal detector\<close>

lemma run_Nil: "run df th s [] = s"
  by (simp add: run_def)

lemma run_Cons: "run df th s (r # rs) = run df th (step df th s r) rs"
  by (simp add: run_def)

lemma run_snoc: "run df th s (rs @ [r]) = step df th (run df th s rs) r"
  by (simp add: run_def)

subsection \<open>Alternation\<close>

lemma alternating_snoc:
  "alternating (es @ [e]) = (alternating es \<and> (es = [] \<or> ev_kind (last es) \<noteq> ev_kind e))"
  by (induction es rule: alternating.induct) auto

lemma step_kind_inv: "kind_inv s \<Longrightarrow> kind_inv (step df th s r)"
  unfolding kind_inv_def step_def Let_def
  by (auto simp: alternating_snoc ev_kind_def)

lemma run_kind_inv: "kind_inv s \<Longrightarrow> kind_inv (run df th s rs)"
  by (induction rs arbitrary: s) (simp_all add: run_Nil run_Cons step_kind_inv)

text \<open>
  Claim C3. For every input frame and threshold, no two consecutive events of the
  list returned by \<open>find_sma_reversals\<close> have the same kind. With only the kinds
  \<open>peak\<close> and \<open>trough\<close> this is strict alternation of the two.
\<close>

theorem reversals_alternate: "alternating (find_sma_reversals df threshold)"
proof (cases "dropna df")
  case Nil
  then show ?thesis by (simp add: find_sma_reversals_def)
next
  case (Cons r0 rs)
  have "kind_inv (init_state r0)"
    by (simp add: kind_inv_def init_state_def)
  then have "kind_inv (run df threshold (init_state r0) (r0 # rs))"
    by (rule run_kind_inv)
  with Cons show ?thesis
    by (simp add: find_sma_reversals_def kind_inv_def)
qed

subsection \<open>Where an event is anchored\<close>

lemma step_anchored:
  "anchored df s \<Longrightarrow> r \<in> set (dropna df) \<Longrightarrow> anchored df (step df' th s r)"
  unfolding anchored_def step_def Let_def
  by (cases r) auto

lemma run_anchored:
  "anchored df s \<Longrightarrow> set rs \<subseteq> set (dropna df) \<Longrightarrow> anchored df (run df' th s rs)"
  by (induction rs arbitrary: s) (simp_all add: run_Nil run_Cons step_anchored)

lemma step_reversals:
  "reversals (step df th s r) = reversals s \<or>
   reversals (step df th s r) =
     reversals s @ [(last_date s, loc df (last_date s), ''peak'')] \<and> trend s = 1 \<or>
   reversals (step df th s r) =
     reversals s @ [(last_date s, loc df (last_date s), ''trough'')] \<and> trend s = - 1"
  unfolding step_def Let_def by simp

lemma step_emits:
  "reversals (step df th s r) = reversals s @ [e] \<Longrightarrow>
   ev_date e = last_date s \<and> ev_price e = loc df (last_date s)"
  using step_reversals [of df th s r] by (auto simp: ev_date_def ev_price_def)

lemma run_event_origin:
  "e \<in> set (reversals (run df th s rs)) \<Longrightarrow>
   e \<in> set (reversals s) \<or>
   (\<exists>pre r post. rs = pre @ r # post \<and>
      reversals (step df th (run df th s pre) r) = reversals (run df th s pre) @ [e])"
proof (induction rs rule: rev_induct)
  case Nil
  then show ?case by (simp add: run_Nil)
next
  case (snoc r rs)
  let ?s = "run df th s rs"
  from step_reversals [of df th ?s r]
  consider (same) "reversals (step df th ?s r) = reversals ?s"
    | (new) e' where "reversals (step df th ?s r) = reversals ?s @ [e']"
    by blast
  then show ?case
  proof cases
    case same
    with snoc.prems have "e \<in> set (reversals ?s)" by (simp add: run_snoc)
    with snoc.IH show ?thesis by (metis append_Cons append_assoc)
  next
    case new
    with snoc.prems have "e \<in> set (reversals ?s) \<or> e = e'" by (auto simp add: run_snoc)
    then show ?thesis
    proof
      assume "e \<in> set (reversals ?s)"
      with snoc.IH show ?thesis by (metis append_Cons append_assoc)
    next
      assume "e = e'"
      with new have "rs @ [r] = rs @ r # [] \<and>
          reversals (step df th ?s r) = reversals ?s @ [e]" by simp
      then show ?thesis by blast
    qed
  qed
qed

lemma dropna_mem:
  "(d, x, y) \<in> set (dropna df) \<longleftrightarrow>
   (\<exists>r \<in> set df. date r = d \<and> raw r = Some x \<and> sma r = Some y)"
  by (induction df) (auto split: option.splits)

lemma loc_distinct:
  "distinct (map date df) \<Longrightarrow> r \<in> set df \<Longrightarrow> loc df (date r) = Scalar (raw r)"
proof (induction df)
  case Nil
  then show ?case by simp
next
  case (Cons a df)
  from Cons.prems have fresh: "date a \<notin> date ` set df" by simp
  show ?case
  proof (cases "r = a")
    case True
    from fresh have "\<forall>x\<in>set df. date x \<noteq> date a" by (auto simp: image_iff)
    then have "filter (\<lambda>r. date r = date a) df = []"
      by (simp add: filter_empty_conv)
    with True show ?thesis by (simp add: loc_def)
  next
    case False
    with Cons.prems have mem: "r \<in> set df" by simp
    with fresh have "date a \<noteq> date r" by (auto simp: image_iff)
    with mem Cons show ?thesis by (simp add: loc_def)
  qed
qed

text \<open>
  Claim C4. Every event \<open>e\<close> of the result is appended by one loop iteration, on some
  valid row \<open>r\<close> (the confirming bar) in the state \<open>s\<close> reached on the rows before it.
  The event is dated \<open>last_date s\<close>, the stored extreme's date, which is the date of a
  valid row whose smoothed value is the stored extreme \<open>last_sma_val s\<close>; its price is
  \<open>df.loc[last_date, raw_col]\<close>, and when the dates of the frame are unique that is
  the raw close \<open>x\<close> of that very row: neither the smoothed value nor a cell of the
  confirming row \<open>r\<close>.
\<close>

theorem event_anchored_at_stored_extreme:
  assumes "e \<in> set (find_sma_reversals df threshold)"
  shows "\<exists>r0 rest pre r post s x.
           dropna df = r0 # rest \<and> r0 # rest = pre @ r # post \<and>
           s = run df threshold (init_state r0) pre \<and>
           reversals (step df threshold s r) = reversals s @ [e] \<and>
           (last_date s, x, last_sma_val s) \<in> set (dropna df) \<and>
           ev_date e = last_date s \<and>
           ev_price e = loc df (last_date s) \<and>
           (distinct (map date df) \<longrightarrow> ev_price e = Scalar (Some x))"
proof (cases "dropna df")
  case Nil
  with assms show ?thesis by (simp add: find_sma_reversals_def)
next
  case (Cons r0 rest)
  with assms have "e \<in> set (reversals (run df threshold (init_state r0) (r0 # rest)))"
    by (simp add: find_sma_reversals_def)
  from run_event_origin [OF this]
  obtain pre r post where split: "r0 # rest = pre @ r # post"
    and emit: "reversals (step df threshold (run df threshold (init_state r0) pre) r) =
               reversals (run df threshold (init_state r0) pre) @ [e]"
    by (auto simp: init_state_def)
  define s where "s = run df threshold (init_state r0) pre"
  have "anchored df (init_state r0)"
    unfolding anchored_def init_state_def using Cons by (cases r0) auto
  moreover have "set pre \<subseteq> set (dropna df)"
    using split Cons by (metis set_append Un_upper1)
  ultimately have "anchored df s"
    unfolding s_def by (rule run_anchored)
  then obtain x where x: "(last_date s, x, last_sma_val s) \<in> set (dropna df)"
    by (auto simp: anchored_def)
  from emit have ev: "ev_date e = last_date s" "ev_price e = loc df (last_date s)"
    using step_emits [of df threshold s r e] by (simp_all add: s_def)
  have "distinct (map date df) \<longrightarrow> ev_price e = Scalar (Some x)"
  proof
    assume dist: "distinct (map date df)"
    from x obtain w where "w \<in> set df" "date w = last_date s" "raw w = Some x"
      by (auto simp: dropna_mem)
    with loc_distinct [OF dist, of w] ev show "ev_price e = Scalar (Some x)" by simp
  qed
  with Cons split emit x ev show ?thesis unfolding s_def by blast
qed

lemma peak_frame_reversals:
  "find_sma_reversals peak_frame (1 / 100) = [(1, Scalar (Some 20), ''peak'')]"
  by (simp add: find_sma_reversals_def peak_frame_def init_state_def run_def step_def
      loc_def Let_def)

theorem event_anchored_at_stored_extreme_witness:
  "(1, Scalar (Some 20), ''peak'') \<in> set (find_sma_reversals peak_frame (1 / 100)) \<and>
   distinct (map date peak_frame) \<and>
   (\<exists>(s :: nat state) x. (last_date s, x, last_sma_val s) \<in> set (dropna peak_frame) \<and>
      last_date s = 1 \<and> Scalar (Some x) = Scalar (Some 20))"
proof -
  let ?e = "(1::nat, Scalar (Some 20), ''peak'')"
  have mem: "?e \<in> set (find_sma_reversals peak_frame (1 / 100))"
    by (simp add: peak_frame_reversals)
  have dist: "distinct (map date peak_frame)"
    by (simp add: peak_frame_def)
  from event_anchored_at_stored_extreme [OF mem]
  obtain s :: "nat state" and x
    where in_valid: "(last_date s, x, last_sma_val s) \<in> set (dropna peak_frame)"
    and at: "ev_date ?e = last_date s"
    and price: "distinct (map date peak_frame) \<longrightarrow> ev_price ?e = Scalar (Some x)"
    by (elim exE conjE)
  from price dist have "ev_price ?e = Scalar (Some x)" by simp
  with in_valid at
  have "(last_date s, x, last_sma_val s) \<in> set (dropna peak_frame) \<and>
      last_date s = 1 \<and> Scalar (Some x) = Scalar (Some 20)"
    by (simp add: ev_date_def ev_price_def)
  with mem dist show ?thesis by blast
qed

subsection \<open>The V-shaped series\<close>

lemma dropna_some:
  "dropna (map (\<lambda>i. \<lparr>date = f i, raw = Some (g i), sma = Some (h i)\<rparr>) xs) =
   map (\<lambda>i. (f i, g i, h i)) xs"
  by (induction xs) simp_all

lemma filter_eq_upt: "i < n \<Longrightarrow> filter (\<lambda>j. j = i) [0..<n] = [i]"
proof (induction n)
  case 0
  then show ?case by simp
next
  case (Suc n)
  show ?case
  proof (cases "i = n")
    case True
    have "filter (\<lambda>j. j = n) [0..<n] = []" by (simp add: filter_empty_conv)
    with True show ?thesis by simp
  next
    case False
    with Suc show ?thesis by simp
  qed
qed

lemma loc_v_frame: "i < 100 \<Longrightarrow> loc (v_frame c) i = Scalar (Some (c i))"
  by (simp add: loc_def v_frame_def filter_map comp_def filter_eq_upt)

lemma upt_0_100: "[0..<100] = 0 # 1 # [2..<100]"
  by (simp add: upt_conv_Cons)

lemma v_sma_lower: "50 \<le> v_sma i"
  by (simp add: v_sma_def)

text \<open>
  Claim C1. On the 100-bar frame whose smoothed column falls linearly from 100 to 50
  over bars 0 to 49 and rises linearly from 50 to 100 over bars 50 to 99, with
  threshold 0.01, the detector returns exactly one event: a \<open>trough\<close>, dated at bar
  49, where the smoothed column takes its minimum 50, and priced at the raw close of
  bar 49, whatever the raw closes are.
\<close>

theorem v_shape_single_trough:
  "find_sma_reversals (v_frame c) (1 / 100) = [(49, Scalar (Some (c 49)), ''trough'')] \<and>
   length (v_frame c) = 100 \<and>
   v_sma 0 = 100 \<and> v_sma 49 = 50 \<and> v_sma 50 = 50 \<and> v_sma 99 = 100 \<and>
   (\<forall>i. v_sma 49 \<le> v_sma i)"
proof -
  have d: "dropna (v_frame c) = map (\<lambda>i. (i, c i, v_sma i)) [0..<100]"
    unfolding v_frame_def by (rule dropna_some)
  have l: "loc (v_frame c) 49 = Scalar (Some (c 49))"
    by (simp add: loc_v_frame)
  have "find_sma_reversals (v_frame c) (1 / 100) = [(49, Scalar (Some (c 49)), ''trough'')]"
    unfolding find_sma_reversals_def d upt_0_100
    by (simp add: v_sma_def init_state_def run_def step_def Let_def l)
  moreover have "length (v_frame c) = 100"
    by (simp add: v_frame_def)
  moreover have "v_sma 0 = 100 \<and> v_sma 49 = 50 \<and> v_sma 50 = 50 \<and> v_sma 99 = 100"
    by (simp add: v_sma_def)
  moreover have "\<forall>i. v_sma 49 \<le> v_sma i"
    using v_sma_lower by (simp add: v_sma_def)
  ultimately show ?thesis by blast
qed

section \<open>Properties of the cache\<close>

lemma date_of_day: "date_of (day n) = n"
  by (simp add: date_of_def day_def)


lemma index_max_stale: "index_max stale_series = day 1099"
  unfolding index_max_def stale_series_def
  by (rule Max_eqI) (auto simp: plain_bar_def day_def)



lemma length_stale: "length stale_series = 1100"
  by (simp add: stale_series_def)


text \<open>
  Claim C5. Whatever the fetch time of a cache entry (in particular within the 168
  hours), and however many bars it holds over whatever span: when the date of its most
  recent bar lies more than 7 days before the current date, \<open>load_cached_data\<close>
  returns \<open>None\<close>, the miss.
\<close>

theorem stale_entry_is_miss:
  assumes "files w ticker = Some (Entry (Some df) fetch_time)"
    and "df \<noteq> []"
    and "date_of (now w) - date_of (index_max df) > 7"
  shows "load_cached_data w ticker = None"
  using assms by (simp add: load_cached_data_def Let_def)

text \<open>
  The witness: an entry fetched this very second, with 1100 bars of which the first is
  1800 days old, and whose last bar is 701 days old.
\<close>

theorem stale_entry_is_miss_witness:
  "files ((world0 (day 1800))\<lparr>files := [''SPY'' \<mapsto> Entry (Some stale_series) (day 1800)]\<rparr>) ''SPY'' =
     Some (Entry (Some stale_series) (day 1800)) \<and>
   stale_series \<noteq> [] \<and>
   date_of (now ((world0 (day 1800))\<lparr>files := [''SPY'' \<mapsto> Entry (Some stale_series) (day 1800)]\<rparr>)) -
     date_of (index_max stale_series) > 7 \<and>
   load_cached_data
     ((world0 (day 1800))\<lparr>files := [''SPY'' \<mapsto> Entry (Some stale_series) (day 1800)]\<rparr>) ''SPY'' = None"
proof -
  let ?w = "(world0 (day 1800))\<lparr>files := [''SPY'' \<mapsto> Entry (Some stale_series) (day 1800)]\<rparr>"
  have f: "files ?w ''SPY'' = Some (Entry (Some stale_series) (day 1800))"
    by simp
  have ne: "stale_series \<noteq> []"
    using length_stale by auto
  have lag: "date_of (now ?w) - date_of (index_max stale_series) > 7"
    by (simp add: world0_def index_max_stale date_of_day)
  from stale_entry_is_miss [OF f ne lag] f ne lag show ?thesis
    by blast
qed




text \<open>
  Claim C10. \<open>save_cached_data\<close> with an empty frame returns the world as it was: no
  file is written, the entry of the ticker (and of every other ticker) is the one that
  was there, and a load afterwards gives what it gave before.
\<close>

theorem store_empty_writes_nothing:
  "save_cached_data ticker [] w = w \<and>
   files (save_cached_data ticker [] w) ticker = files w ticker \<and>
   load_cached_data (save_cached_data ticker [] w) ticker' = load_cached_data w ticker'"
  by (simp add: save_cached_data_def)

section \<open>Properties of the fetch\<close>

lemma fetch_loop_failures:
  "\<forall>j \<in> set xs. isl (try_fetch (net j)) \<Longrightarrow>
   fetch_loop net ticker (xs @ ys) w = fetch_loop net ticker ys (foldl fail_step w xs)"
proof (induction xs arbitrary: w)
  case Nil
  then show ?case by simp
next
  case (Cons x xs)
  then obtain e where "try_fetch (net x) = Inl e"
    by (cases "try_fetch (net x)") auto
  with Cons show ?case by (simp add: fail_step_def)
qed

lemma upt_1_6: "[1..<6] = [1, 2, 3, 4, 5]"
  by (simp add: upt_conv_Cons)

lemma five_failures:
  "foldl fail_step w [1..<6] =
   w\<lparr>now := now w + 65, requests := requests w + 5, slept := slept w @ [7, 10, 13, 16, 19]\<rparr>"
  unfolding upt_1_6 by (simp add: fail_step_def sleep_def send_request_def)

lemma split_attempts: "k \<in> {1..5} \<Longrightarrow> [1..<6] = [1..<k] @ k # [Suc k..<6]"
proof -
  assume "k \<in> {1..5}"
  then have "1 \<le> k" "k < 6" by auto
  then have "[1..<6] = [1..<k] @ [k..<6]"
    by (metis less_imp_le_nat upt_add_eq_append le_Suc_ex)
  moreover have "[k..<6] = k # [Suc k..<6]"
    using \<open>k < 6\<close> by (simp add: upt_conv_Cons)
  ultimately show ?thesis by simp
qed

text \<open>
  Claim C2 at a response whose timestamp array is empty. The attempt does not raise:
  it builds the empty frame, which \<open>get_stock_data\<close> returns at once. One request has
  been sent, nothing was slept, nothing was retried, and no file was written.
\<close>

theorem empty_response_not_retried:
  "try_fetch (empty_net 1) = Inr [] \<and>
   get_stock_data empty_net ''SPY'' True (world0 0) = ([], (world0 0)\<lparr>requests := 1\<rparr>) \<and>
   slept (snd (get_stock_data empty_net ''SPY'' True (world0 0))) = []"
proof -
  have "try_fetch (Chart empty_chart) = Inr []"
    by (simp add: try_fetch_def empty_chart_def column_def build_frame_def Let_def)
  then show ?thesis
    unfolding get_stock_data_def upt_1_6
    by (simp add: empty_net_def save_cached_data_def send_request_def world0_def)
qed

text \<open>
  Claim C2, amended. When the cache gives no frame (or a refresh is forced), every
  attempt that raises (a transport error, an HTTP error status, JSON that does not
  decode or lacks the result, a missing \<open>timestamp\<close> key) is a failed attempt, followed
  by a sleep and the next attempt; after five failed attempts, with the sleeps 7, 10,
  13, 16 and 19, \<open>get_stock_data\<close> returns the empty frame. The function is total:
  nothing is raised to the caller.
\<close>

theorem fetch_retry_budget:
  assumes miss: "force_refresh \<or> load_cached_data w ticker = None"
  shows "try_fetch (Raises e) = Inl e \<and>
     (timestamp res = None \<longrightarrow> try_fetch (Chart res) = Inl KeyError) \<and>
     ((\<forall>k \<in> {1..5}. isl (try_fetch (net k))) \<longrightarrow>
        get_stock_data net ticker force_refresh w =
          ([], w\<lparr>now := now w + 65, requests := requests w + 5,
                 slept := slept w @ [7, 10, 13, 16, 19]\<rparr>))"
proof -
  from miss have g: "get_stock_data net ticker force_refresh w = fetch_loop net ticker [1..<6] w"
    by (auto simp: get_stock_data_def)
  have a: "try_fetch (Raises e) = Inl e"
    by (simp add: try_fetch_def)
  have b: "timestamp res = None \<longrightarrow> try_fetch (Chart res) = Inl KeyError"
    by (simp add: try_fetch_def)
  have c: "(\<forall>k \<in> {1..5}. isl (try_fetch (net k))) \<longrightarrow>
        get_stock_data net ticker force_refresh w =
          ([], w\<lparr>now := now w + 65, requests := requests w + 5,
                 slept := slept w @ [7, 10, 13, 16, 19]\<rparr>)"
  proof
    assume "\<forall>k \<in> {1..5}. isl (try_fetch (net k))"
    then have "\<forall>j \<in> set [1..<6]. isl (try_fetch (net j))" by simp
    from fetch_loop_failures [OF this, of ticker "[]" w]
    have "fetch_loop net ticker [1..<6] w = ([], foldl fail_step w [1..<6])"
      by simp
    then show "get_stock_data net ticker force_refresh w =
          ([], w\<lparr>now := now w + 65, requests := requests w + 5,
                 slept := slept w @ [7, 10, 13, 16, 19]\<rparr>)"
      by (simp only: g five_failures)
  qed
  from a b c show ?thesis by blast
qed

theorem fetch_retry_budget_witness:
  "timestamp no_timestamp = None \<and>
   try_fetch (Chart no_timestamp) = Inl KeyError \<and>
   isl (try_fetch (dead_net 1)) \<and> isl (try_fetch (dead_net 2)) \<and>
   isl (try_fetch (dead_net 3)) \<and> isl (try_fetch (dead_net 4)) \<and>
   isl (try_fetch (dead_net 5)) \<and>
   get_stock_data dead_net ''SPY'' True (world0 0) =
     ([], \<lparr>files = Map.empty, now = 65, requests = 5, slept = [7, 10, 13, 16, 19]\<rparr>)"
proof -
  have m: "True \<or> load_cached_data (world0 0) ''SPY'' = None" by simp
  have t: "timestamp no_timestamp = None" by (simp add: no_timestamp_def)
  note r = fetch_retry_budget [OF m, of ConnectionError no_timestamp dead_net]
  from r t have k: "try_fetch (Chart no_timestamp) = Inl KeyError" by blast
  have f: "\<forall>k \<in> {1..5}. isl (try_fetch (dead_net k))"
    using k by (simp add: dead_net_def try_fetch_def)
  with r have "get_stock_data dead_net ''SPY'' True (world0 0) =
      ([], (world0 0)\<lparr>now := now (world0 0) + 65, requests := requests (world0 0) + 5,
             slept := slept (world0 0) @ [7, 10, 13, 16, 19]\<rparr>)"
    by blast
  then have g: "get_stock_data dead_net ''SPY'' True (world0 0) =
      ([], \<lparr>files = Map.empty, now = 65, requests = 5, slept = [7, 10, 13, 16, 19]\<rparr>)"
    by (simp add: world0_def)
  from f have "isl (try_fetch (dead_net 1)) \<and> isl (try_fetch (dead_net 2)) \<and>
      isl (try_fetch (dead_net 3)) \<and> isl (try_fetch (dead_net 4)) \<and>
      isl (try_fetch (dead_net 5))"
    by simp
  with t k g show ?thesis by blast
qed

text \<open>The first attempt that builds a frame ends the loop with that frame.\<close>

lemma first_success_returns:
  assumes miss: "force_refresh \<or> load_cached_data w ticker = None"
    and k: "k \<in> {1..5}"
    and f: "\<forall>j \<in> {1..<k}. isl (try_fetch (net j))"
    and s: "try_fetch (net k) = Inr df"
  shows "get_stock_data net ticker force_refresh w =
          (df, save_cached_data ticker df (send_request (foldl fail_step w [1..<k])))"
proof -
  from miss have g: "get_stock_data net ticker force_refresh w = fetch_loop net ticker [1..<6] w"
    by (auto simp: get_stock_data_def)
  from f have "\<forall>j \<in> set [1..<k]. isl (try_fetch (net j))" by simp
  from fetch_loop_failures [OF this, of ticker "k # [Suc k..<6]" w] s
  have "fetch_loop net ticker ([1..<k] @ k # [Suc k..<6]) w =
        (df, save_cached_data ticker df (send_request (foldl fail_step w [1..<k])))"
    by simp
  then show ?thesis
    by (simp only: g split_attempts [OF k, symmetric])
qed

section \<open>Properties of the indicators\<close>

lemma length_rolling_mean [simp]: "length (rolling_mean w m xs) = length xs"
  by (simp add: rolling_mean_def)

lemma length_diff [simp]: "length (diff xs) = length xs"
  by (simp add: diff_def)

lemma length_clip_lower [simp]: "length (clip_lower lo xs) = length xs"
  by (simp add: clip_lower_def)

lemma length_clip_upper [simp]: "length (clip_upper hi xs) = length xs"
  by (simp add: clip_upper_def)

lemma length_neg [simp]: "length (neg xs) = length xs"
  by (simp add: neg_def)

lemma length_gain_col [simp]: "length (gain_col xs) = length xs"
  by (simp add: gain_col_def)

lemma length_loss_col [simp]: "length (loss_col xs) = length xs"
  by (simp add: loss_col_def)

lemma length_replace_zero_nan [simp]: "length (replace_zero_nan xs) = length xs"
  by (simp add: replace_zero_nan_def)

lemma length_rs_col [simp]: "length (rs_col xs) = length xs"
  by (simp add: rs_col_def)

lemma length_RSI_col [simp]: "length (RSI_col xs) = length xs"
  by (simp add: RSI_col_def fillna_def)

lemma length_calculate_indicators [simp]:
  "length (calculate_indicators df spy_df) = length df"
  by (simp add: calculate_indicators_def Let_def)

subsection \<open>The oscillator\<close>

lemma sum_list_nonneg_real: "\<forall>x \<in> set xs. (0::real) \<le> x \<Longrightarrow> 0 \<le> sum_list xs"
  by (induction xs) auto

lemma map_filter_nonneg:
  "\<forall>c \<in> set xs. \<forall>x. c = Some x \<longrightarrow> (0::real) \<le> x \<Longrightarrow>
   \<forall>x \<in> set (List.map_filter (\<lambda>c. c) xs). 0 \<le> x"
  by (auto simp: List.map_filter_def)

lemma rolling_mean_nonneg:
  assumes "\<forall>c \<in> set xs. \<forall>x. c = Some x \<longrightarrow> (0::real) \<le> x"
    and "i < length xs" and "rolling_mean w m xs ! i = Some v"
  shows "0 \<le> v"
proof -
  let ?win = "drop (i + 1 - w) (take (i + 1) xs)"
  let ?obs = "List.map_filter (\<lambda>c. c) ?win"
  have "set ?win \<subseteq> set xs"
    by (meson set_drop_subset set_take_subset subset_trans)
  with assms(1) have "\<forall>c \<in> set ?win. \<forall>x. c = Some x \<longrightarrow> 0 \<le> x" by blast
  then have "\<forall>x \<in> set ?obs. 0 \<le> x" by (rule map_filter_nonneg)
  then have "0 \<le> sum_list ?obs" by (rule sum_list_nonneg_real)
  then have "0 \<le> sum_list ?obs / real (length ?obs)" by simp
  with assms(2,3) show ?thesis
    by (auto simp: rolling_mean_def Let_def split: if_splits)
qed

lemma rolling_mean_leading_nan:
  assumes "i < length d" and "d ! 0 = None" and "i < m" and "i < w"
  shows "rolling_mean w m d ! i = None"
proof -
  from assms(1) obtain d' where d: "d = (d ! 0) # d'" by (cases d) auto
  with assms(2) have d': "d = None # d'" by simp
  from assms(4) have "drop (i + 1 - w) (take (i + 1) d) = None # take i d'"
    by (subst d') simp
  then have "List.map_filter (\<lambda>c. c) (drop (i + 1 - w) (take (i + 1) d)) =
      List.map_filter (\<lambda>c. c) (take i d')"
    by (simp add: List.map_filter_def)
  moreover have "length (List.map_filter (\<lambda>c. c) (take i d')) \<le> length (take i d')"
    by (metis List.map_filter_def length_map length_filter_le)
  moreover have "length (take i d') \<le> i" by simp
  ultimately have "length (List.map_filter (\<lambda>c. c) (drop (i + 1 - w) (take (i + 1) d))) < m"
    using assms(3) by simp
  with assms(1) show ?thesis by (simp add: rolling_mean_def Let_def)
qed

lemma gain_nonneg: "i < length xs \<Longrightarrow> gain_col xs ! i = Some g \<Longrightarrow> 0 \<le> g"
  unfolding gain_col_def
  by (rule rolling_mean_nonneg
        [where xs = "clip_lower 0 (diff xs)" and w = 14 and m = 14 and i = i])
     (auto simp: clip_lower_def)

lemma loss_nonneg: "i < length xs \<Longrightarrow> loss_col xs ! i = Some l \<Longrightarrow> 0 \<le> l"
  unfolding loss_col_def
  by (rule rolling_mean_nonneg
        [where xs = "neg (clip_upper 0 (diff xs))" and w = 14 and m = 14 and i = i])
     (auto simp: clip_upper_def neg_def)

lemma rs_nth:
  "i < length xs \<Longrightarrow>
   rs_col xs ! i = x_div (fin (gain_col xs ! i)) (fin (replace_zero_nan (loss_col xs) ! i))"
  by (simp add: rs_col_def)

lemma rs_cases:
  assumes i: "i < length xs"
  shows "rs_col xs ! i = None \<or> (\<exists>r. 0 \<le> r \<and> rs_col xs ! i = Some (Fin r))"
proof (cases "gain_col xs ! i")
  case None
  with i show ?thesis by (simp add: rs_nth x_div_def fin_def)
next
  case g: (Some g)
  show ?thesis
  proof (cases "loss_col xs ! i")
    case None
    with i show ?thesis
      by (simp add: rs_nth x_div_def fin_def replace_zero_nan_def split: option.splits)
  next
    case l: (Some l)
    from i g have g0: "0 \<le> g" by (rule gain_nonneg)
    from i l have l0: "0 \<le> l" by (rule loss_nonneg)
    show ?thesis
    proof (cases "l = 0")
      case True
      with i l show ?thesis
        by (simp add: rs_nth x_div_def fin_def replace_zero_nan_def split: option.splits)
    next
      case False
      with i g l have "rs_col xs ! i = Some (Fin (g / l))"
        by (simp add: rs_nth x_div_def fin_def replace_zero_nan_def)
      moreover from g0 l0 have "0 \<le> g / l" by simp
      ultimately show ?thesis by blast
    qed
  qed
qed

lemma rsi_nan:
  "i < length xs \<Longrightarrow> rs_col xs ! i = None \<Longrightarrow> RSI_col xs ! i = Some (Fin 50)"
  by (simp add: RSI_col_def fillna_def x_sub_def x_div_def x_add_def)

lemma rsi_number:
  "i < length xs \<Longrightarrow> rs_col xs ! i = Some (Fin r) \<Longrightarrow> 0 \<le> r \<Longrightarrow>
   RSI_col xs ! i = Some (Fin (100 - 100 / (1 + r)))"
proof -
  assume i: "i < length xs" and rs: "rs_col xs ! i = Some (Fin r)" and r: "0 \<le> r"
  from r have "1 + r \<noteq> 0" by simp
  with i rs show ?thesis
    by (simp add: RSI_col_def fillna_def x_sub_def x_div_def x_add_def)
qed

lemma diff_first: "0 < length xs \<Longrightarrow> diff xs ! 0 = None"
  by (simp add: diff_def)

lemma rs_warmup: "i < length xs \<Longrightarrow> i < 14 \<Longrightarrow> rs_col xs ! i = None"
proof -
  assume i: "i < length xs" and w: "i < 14"
  from i have pos: "0 < length xs" by (cases xs) auto
  then have "diff xs ! 0 = None" by (rule diff_first)
  with pos have "clip_lower 0 (diff xs) ! 0 = None"
    by (simp add: clip_lower_def)
  with i w have "gain_col xs ! i = None"
    unfolding gain_col_def by (intro rolling_mean_leading_nan) simp_all
  with i show ?thesis by (simp add: rs_nth x_div_def fin_def)
qed

lemma rs_zero_loss: "i < length xs \<Longrightarrow> loss_col xs ! i = Some 0 \<Longrightarrow> rs_col xs ! i = None"
  by (simp add: rs_nth replace_zero_nan_def x_div_def fin_def split: option.splits)

lemma rsi_range: "0 \<le> r \<Longrightarrow> 0 \<le> 100 - 100 / (1 + r) \<and> 100 - 100 / (1 + r) \<le> (100::real)"
proof -
  assume r: "0 \<le> r"
  then have "100 / (1 + r) \<le> 100 / 1" by (intro divide_left_mono) simp_all
  moreover from r have "0 \<le> 100 / (1 + r)" by simp
  ultimately show ?thesis by simp
qed

lemma RSI_col_bounded:
  assumes i: "i < length closes"
  shows "\<exists>v. RSI_col closes ! i = Some (Fin v) \<and> 0 \<le> v \<and> v \<le> 100 \<and>
      (rs_col closes ! i = None \<longrightarrow> v = 50) \<and>
      (loss_col closes ! i = Some 0 \<longrightarrow> v = 50) \<and>
      (i < 14 \<longrightarrow> v = 50)"
proof (cases "rs_col closes ! i")
  case None
  with i have "RSI_col closes ! i = Some (Fin 50)" by (simp add: rsi_nan)
  then show ?thesis by simp
next
  case (Some u)
  with rs_cases [OF i] obtain r where r: "0 \<le> r" and u: "rs_col closes ! i = Some (Fin r)"
    by auto
  from i u r have v: "RSI_col closes ! i = Some (Fin (100 - 100 / (1 + r)))"
    by (rule rsi_number)
  from r have rng: "0 \<le> 100 - 100 / (1 + r) \<and> 100 - 100 / (1 + r) \<le> 100"
    by (rule rsi_range)
  have w: "\<not> i < 14"
  proof
    assume "i < 14"
    with i have "rs_col closes ! i = None" by (rule rs_warmup)
    with u show False by simp
  qed
  have z: "loss_col closes ! i \<noteq> Some 0"
  proof
    assume "loss_col closes ! i = Some 0"
    with i have "rs_col closes ! i = None" by (rule rs_zero_loss)
    with u show False by simp
  qed
  from v rng w z u show ?thesis by simp
qed

lemma RSI_of_row:
  "i < length df \<Longrightarrow> RSI (calculate_indicators df spy_df ! i) = RSI_col (map Close df) ! i"
  by (simp add: calculate_indicators_def Let_def)

text \<open>
  Claim C7. For every input frame (of any length, so also of length at least 14) and
  any benchmark, the \<open>RSI\<close> cell of every row of the result is a finite number between
  0 and 100; it is 50 wherever \<open>rs\<close> is NaN, in particular where the average loss is
  zero (which line 164 replaces by NaN before dividing) and in the first 14 rows, where
  the 14-period window is not filled.
\<close>

theorem rsi_defined_and_bounded:
  "length (calculate_indicators df spy_df) = length df \<and>
   (\<forall>i < length df.
      \<exists>v. RSI (calculate_indicators df spy_df ! i) = Some (Fin v) \<and> 0 \<le> v \<and> v \<le> 100 \<and>
        (rs_col (map Close df) ! i = None \<longrightarrow> v = 50) \<and>
        (loss_col (map Close df) ! i = Some 0 \<longrightarrow> v = 50) \<and>
        (i < 14 \<longrightarrow> v = 50))"
proof (intro conjI allI impI)
  show "length (calculate_indicators df spy_df) = length df" by simp
next
  fix i assume i: "i < length df"
  then have "i < length (map Close df)" by simp
  from RSI_col_bounded [OF this] RSI_of_row [OF i, of spy_df]
  show "\<exists>v. RSI (calculate_indicators df spy_df ! i) = Some (Fin v) \<and> 0 \<le> v \<and> v \<le> 100 \<and>
        (rs_col (map Close df) ! i = None \<longrightarrow> v = 50) \<and>
        (loss_col (map Close df) ! i = Some 0 \<longrightarrow> v = 50) \<and>
        (i < 14 \<longrightarrow> v = 50)"
    by simp
qed

lemma upt_16: "[0..<16] = [0, 1, 2, 3, 4, 5, 6, 7, 8, 9, 10, 11, 12, 13, 14, 15]"
  by (simp add: upt_conv_Cons)

lemma length_zigzag: "length zigzag = 16"
  by (simp add: zigzag_def)

lemma length_rising: "length rising = 16"
  by (simp add: rising_def)

lemma closes_zigzag_frame: "map Close zigzag_frame = zigzag"
proof -
  have "map Close zigzag_frame = map (\<lambda>i. zigzag ! i) [0..<length zigzag]"
    by (simp add: zigzag_frame_def length_zigzag)
  then show ?thesis by (simp only: map_nth)
qed

lemma closes_rising_frame: "map Close rising_frame = rising"
proof -
  have "map Close rising_frame = map (\<lambda>i. rising ! i) [0..<length rising]"
    by (simp add: rising_frame_def length_rising)
  then show ?thesis by (simp only: map_nth)
qed

lemma zigzag_delta:
  "diff zigzag =
     [None, Some 1, Some (- 1), Some 2, Some (- 1), Some 2, Some (- 1), Some 2, Some (- 1),
      Some 2, Some (- 1), Some 2, Some (- 1), Some 2, Some (- 1), Some 2]"
  unfolding diff_def zigzag_def
  apply (simp only: length_map list.size)
  apply (simp add: upt_16 cell_sub_def)
  done

lemma rising_delta:
  "diff rising =
     [None, Some 1, Some 1, Some 1, Some 1, Some 1, Some 1, Some 1, Some 1,
      Some 1, Some 1, Some 1, Some 1, Some 1, Some 1, Some 1]"
  unfolding diff_def rising_def
  apply (simp only: length_map list.size)
  apply (simp add: upt_16 cell_sub_def)
  done

lemma zigzag_rsi: "RSI_col zigzag ! 14 = Some (Fin 65)"
proof -
  have g: "gain_col zigzag ! 14 = Some (13 / 14)"
    unfolding gain_col_def zigzag_delta
    by (simp add: rolling_mean_def clip_lower_def List.map_filter_def Let_def upt_16)
  have l: "loss_col zigzag ! 14 = Some (1 / 2)"
    unfolding loss_col_def zigzag_delta
    by (simp add: rolling_mean_def clip_upper_def neg_def List.map_filter_def Let_def upt_16)
  have rs: "rs_col zigzag ! 14 = Some (Fin (13 / 7))"
    using g l length_zigzag by (simp add: rs_nth replace_zero_nan_def x_div_def fin_def)
  from rsi_number [OF _ rs] length_zigzag show ?thesis by simp
qed

lemma rising_gain_loss: "gain_col rising ! 14 = Some 1 \<and> loss_col rising ! 14 = Some 0"
proof -
  have g: "gain_col rising ! 14 = Some 1"
    unfolding gain_col_def rising_delta
    by (simp add: rolling_mean_def clip_lower_def List.map_filter_def Let_def upt_16)
  have l: "loss_col rising ! 14 = Some 0"
    unfolding loss_col_def rising_delta
    by (simp add: rolling_mean_def clip_upper_def neg_def List.map_filter_def Let_def upt_16)
  from g l show ?thesis by simp
qed

text \<open>
  The witness. Sixteen bars whose close rises by 2 and falls by 1 in turn: rows 0 to 13
  hold 50, row 14 holds 65 (average gain 13/14 over average loss 1/2). Sixteen bars
  whose close only rises: at row 14 the average gain is 1 and the average loss 0, and
  the cell holds 50, not the 100 that dividing by the zero would give.
\<close>

theorem rsi_defined_and_bounded_witness:
  "length (calculate_indicators zigzag_frame None) = 16 \<and>
   RSI (calculate_indicators zigzag_frame None ! 0) = Some (Fin 50) \<and>
   RSI (calculate_indicators zigzag_frame None ! 13) = Some (Fin 50) \<and>
   RSI (calculate_indicators zigzag_frame None ! 14) = Some (Fin 65) \<and>
   (\<exists>v. RSI (calculate_indicators zigzag_frame None ! 15) = Some (Fin v) \<and> 0 \<le> v \<and> v \<le> 100) \<and>
   gain_col (map Close rising_frame) ! 14 = Some 1 \<and>
   loss_col (map Close rising_frame) ! 14 = Some 0 \<and>
   RSI (calculate_indicators rising_frame None ! 14) = Some (Fin 50)"
proof -
  have len: "length zigzag_frame = 16" by (simp add: zigzag_frame_def)
  have rlen: "length rising_frame = 16" by (simp add: rising_frame_def)
  from rsi_defined_and_bounded [of zigzag_frame None]
  have a: "length (calculate_indicators zigzag_frame None) = 16"
    and b: "\<forall>i < 16. \<exists>v. RSI (calculate_indicators zigzag_frame None ! i) = Some (Fin v) \<and>
        0 \<le> v \<and> v \<le> 100 \<and>
        (rs_col zigzag ! i = None \<longrightarrow> v = 50) \<and>
        (loss_col zigzag ! i = Some 0 \<longrightarrow> v = 50) \<and>
        (i < 14 \<longrightarrow> v = 50)"
    by (simp_all add: len closes_zigzag_frame)
  have "(0::nat) < 16" by simp
  with b have "\<exists>v. RSI (calculate_indicators zigzag_frame None ! 0) = Some (Fin v) \<and>
      0 \<le> v \<and> v \<le> 100 \<and>
      (rs_col zigzag ! 0 = None \<longrightarrow> v = 50) \<and>
      (loss_col zigzag ! 0 = Some 0 \<longrightarrow> v = 50) \<and>
      ((0::nat) < 14 \<longrightarrow> v = 50)" by blast
  then have c0: "RSI (calculate_indicators zigzag_frame None ! 0) = Some (Fin 50)" by auto
  have "(13::nat) < 16" by simp
  with b have "\<exists>v. RSI (calculate_indicators zigzag_frame None ! 13) = Some (Fin v) \<and>
      0 \<le> v \<and> v \<le> 100 \<and>
      (rs_col zigzag ! 13 = None \<longrightarrow> v = 50) \<and>
      (loss_col zigzag ! 13 = Some 0 \<longrightarrow> v = 50) \<and>
      ((13::nat) < 14 \<longrightarrow> v = 50)" by blast
  then have c: "RSI (calculate_indicators zigzag_frame None ! 13) = Some (Fin 50)" by auto
  have d: "RSI (calculate_indicators zigzag_frame None ! 14) = Some (Fin 65)"
    using zigzag_rsi by (simp add: RSI_of_row len closes_zigzag_frame)
  have "(15::nat) < 16" by simp
  with b have e: "\<exists>v. RSI (calculate_indicators zigzag_frame None ! 15) = Some (Fin v) \<and>
      0 \<le> v \<and> v \<le> 100" by blast
  from rsi_defined_and_bounded [of rising_frame None]
  have rb: "\<forall>i < 16. \<exists>v. RSI (calculate_indicators rising_frame None ! i) = Some (Fin v) \<and>
        0 \<le> v \<and> v \<le> 100 \<and>
        (rs_col rising ! i = None \<longrightarrow> v = 50) \<and>
        (loss_col rising ! i = Some 0 \<longrightarrow> v = 50) \<and>
        (i < 14 \<longrightarrow> v = 50)"
    by (simp add: rlen closes_rising_frame)
  have "(14::nat) < 16" by simp
  with rb have "\<exists>v. RSI (calculate_indicators rising_frame None ! 14) = Some (Fin v) \<and>
      0 \<le> v \<and> v \<le> 100 \<and>
      (rs_col rising ! 14 = None \<longrightarrow> v = 50) \<and>
      (loss_col rising ! 14 = Some 0 \<longrightarrow> v = 50) \<and>
      ((14::nat) < 14 \<longrightarrow> v = 50)" by blast
  with rising_gain_loss
  have f: "RSI (calculate_indicators rising_frame None ! 14) = Some (Fin 50)" by auto
  from rising_gain_loss have g: "gain_col (map Close rising_frame) ! 14 = Some 1"
    and l: "loss_col (map Close rising_frame) ! 14 = Some 0"
    by (simp_all add: closes_rising_frame)
  from a c0 c d e f g l show ?thesis by blast
qed

subsection \<open>Without a benchmark\<close>

lemma no_benchmark:
  "spy_df = None \<or> spy_df = Some [] \<Longrightarrow> aligned_benchmark spy_df idx = None"
  by (auto simp: aligned_benchmark_def)

lemma degraded_row:
  assumes "spy_df = None \<or> spy_df = Some []" and "i < length df"
  shows "Alpha (calculate_indicators df spy_df ! i) = Some (Fin 0) \<and>
         Rel_Perf_3M (calculate_indicators df spy_df ! i) = Some (Fin 0)"
  using assms by (simp add: calculate_indicators_def Let_def no_benchmark)

text \<open>
  Claim C8. When the benchmark is absent (\<open>None\<close>) or an empty frame,
  \<open>calculate_indicators\<close> returns a frame with one row per input row (it is a total
  function: no branch of it raises), and \<open>Alpha\<close> and \<open>Rel_Perf_3M\<close> are exactly 0 in
  every row.
\<close>

theorem empty_benchmark_gives_zero:
  assumes "spy_df = None \<or> spy_df = Some []"
  shows "length (calculate_indicators df spy_df) = length df \<and>
     (\<forall>r \<in> set (calculate_indicators df spy_df).
        Alpha r = Some (Fin 0) \<and> Rel_Perf_3M r = Some (Fin 0))"
proof (intro conjI ballI)
  show "length (calculate_indicators df spy_df) = length df" by simp
next
  fix r assume "r \<in> set (calculate_indicators df spy_df)"
  then obtain i where i: "i < length df" and r: "r = calculate_indicators df spy_df ! i"
    by (auto simp: in_set_conv_nth)
  from degraded_row [OF assms i] r show "Alpha r = Some (Fin 0)" by simp
  from degraded_row [OF assms i] r show "Rel_Perf_3M r = Some (Fin 0)" by simp
qed

theorem empty_benchmark_gives_zero_witness:
  "length (calculate_indicators two_bars (Some [])) = 2 \<and>
   Alpha (calculate_indicators two_bars (Some []) ! 0) = Some (Fin 0) \<and>
   Rel_Perf_3M (calculate_indicators two_bars (Some []) ! 0) = Some (Fin 0) \<and>
   Alpha (calculate_indicators two_bars (Some []) ! 1) = Some (Fin 0) \<and>
   Rel_Perf_3M (calculate_indicators two_bars (Some []) ! 1) = Some (Fin 0)"
proof -
  let ?out = "calculate_indicators two_bars (Some [])"
  have h: "Some [] = (None :: frame option) \<or> Some [] = Some ([] :: frame)" by simp
  from empty_benchmark_gives_zero [OF h, of two_bars]
  have len: "length ?out = 2"
    and all: "\<forall>r \<in> set ?out. Alpha r = Some (Fin 0) \<and> Rel_Perf_3M r = Some (Fin 0)"
    by (simp_all add: two_bars_def)
  from len have "?out ! 0 \<in> set ?out" "?out ! 1 \<in> set ?out"
    by simp_all
  with all len show ?thesis by blast
qed

subsection \<open>The trend state\<close>

lemma cell_gt_irrefl: "\<not> cell_gt a a"
  by (simp add: cell_gt_def split: option.splits)

lemma cell_lt_irrefl: "\<not> cell_lt a a"
  by (simp add: cell_lt_def split: option.splits)

lemma x_gt_zero_irrefl: "\<not> x_gt (Some (Fin 0)) (Some (Fin 0))"
  by (simp add: x_gt_def)

lemma x_lt_zero_irrefl: "\<not> x_lt (Some (Fin 0)) (Some (Fin 0))"
  by (simp add: x_lt_def)

text \<open>
  Claim C9. For a non-empty frame whose last row has \<open>Close\<close> equal to \<open>SMA_50\<close>, or
  \<open>Rel_Perf_3M\<close> equal to 0, \<open>determine_trend_state\<close> returns \<open>Neutral\<close>: each of the
  four quadrant tests needs a strict inequality on both. In particular the result of
  \<open>calculate_indicators\<close> without a benchmark, whose \<open>Rel_Perf_3M\<close> is 0 in the last
  row, is classified \<open>Neutral\<close>.
\<close>

theorem tie_or_zero_is_neutral:
  "(df \<noteq> [] \<and> (Close (last df) = SMA_50 (last df) \<or> Rel_Perf_3M (last df) = Some (Fin 0)) \<longrightarrow>
      determine_trend_state df = (''Neutral'', ''#8a94a6'')) \<and>
   (bars \<noteq> [] \<and> (spy_df = None \<or> spy_df = Some []) \<longrightarrow>
      Rel_Perf_3M (last (calculate_indicators bars spy_df)) = Some (Fin 0) \<and>
      determine_trend_state (calculate_indicators bars spy_df) = (''Neutral'', ''#8a94a6''))"
proof (intro conjI impI)
  assume "df \<noteq> [] \<and> (Close (last df) = SMA_50 (last df) \<or> Rel_Perf_3M (last df) = Some (Fin 0))"
  then show "determine_trend_state df = (''Neutral'', ''#8a94a6'')"
    by (auto simp: determine_trend_state_def Let_def cell_gt_irrefl cell_lt_irrefl
        x_gt_zero_irrefl x_lt_zero_irrefl)
next
  assume b: "bars \<noteq> [] \<and> (spy_df = None \<or> spy_df = Some [])"
  let ?out = "calculate_indicators bars spy_df"
  from b have ne: "?out \<noteq> []"
    by (metis length_calculate_indicators length_0_conv)
  then have "last ?out = ?out ! (length bars - 1)"
    by (simp add: last_conv_nth)
  moreover from b have "length bars - 1 < length bars"
    by (cases bars) auto
  ultimately show z: "Rel_Perf_3M (last ?out) = Some (Fin 0)"
    using degraded_row [of spy_df "length bars - 1" bars] b by simp
  with ne show "determine_trend_state ?out = (''Neutral'', ''#8a94a6'')"
    by (simp add: determine_trend_state_def Let_def x_gt_zero_irrefl x_lt_zero_irrefl)
qed

text \<open>
  The witness: a row with close and average both 5; the same row with close 6 above the
  average and relative performance 0; a frame without benchmark. The last conjunct
  shows the classifier at work: close 6, average 5, relative performance 3.
\<close>

theorem tie_or_zero_is_neutral_witness:
  "[tied_row] \<noteq> [] \<and> Close (last [tied_row]) = SMA_50 (last [tied_row]) \<and>
   determine_trend_state [tied_row] = (''Neutral'', ''#8a94a6'') \<and>
   Rel_Perf_3M (last [tied_row\<lparr>Close := Some 6, Rel_Perf_3M := Some (Fin 0)\<rparr>]) = Some (Fin 0) \<and>
   determine_trend_state [tied_row\<lparr>Close := Some 6, Rel_Perf_3M := Some (Fin 0)\<rparr>] =
     (''Neutral'', ''#8a94a6'') \<and>
   two_bars \<noteq> [] \<and>
   determine_trend_state (calculate_indicators two_bars None) = (''Neutral'', ''#8a94a6'') \<and>
   determine_trend_state [tied_row\<lparr>Close := Some 6\<rparr>] = (''LEADING'', ''#26a69a'')"
proof -
  have t: "Close (last [tied_row]) = SMA_50 (last [tied_row])"
    by (simp add: tied_row_def)
  have n: "two_bars \<noteq> []"
    by (simp add: two_bars_def)
  from tie_or_zero_is_neutral [of "[tied_row]" two_bars None] t n
  have a: "determine_trend_state [tied_row] = (''Neutral'', ''#8a94a6'')"
    and c: "determine_trend_state (calculate_indicators two_bars None) = (''Neutral'', ''#8a94a6'')"
    by simp_all
  from tie_or_zero_is_neutral
    [of "[tied_row\<lparr>Close := Some 6, Rel_Perf_3M := Some (Fin 0)\<rparr>]" two_bars None]
  have b: "determine_trend_state [tied_row\<lparr>Close := Some 6, Rel_Perf_3M := Some (Fin 0)\<rparr>] =
      (''Neutral'', ''#8a94a6'')"
    by simp
  have d: "determine_trend_state [tied_row\<lparr>Close := Some 6\<rparr>] = (''LEADING'', ''#26a69a'')"
    by (simp add: determine_trend_state_def tied_row_def cell_gt_def cell_lt_def
        x_gt_def x_lt_def Let_def)
  from t n a b c d show ?thesis by simp
qed

end
